theory Spec2Isabelle
  imports Complex_Main
begin

section \<open>The VPSA column simulator (PSAloop\_MTC.py)\<close>

text \<open>
  The simulator computes with IEEE doubles and with CasADi expressions that are later
  evaluated on doubles. The embedding is over the real numbers: every quantity is a
  \<open>real\<close>, every vector a \<open>real list\<close>. A division whose divisor is zero has no real
  value (Python raises \<open>ZeroDivisionError\<close> on its own floats, NumPy and CasADi produce
  \<open>inf\<close> or \<open>nan\<close>); where a claim is about such divisions the model returns
  \<open>Inl DivisionByZero\<close> there. A failure of the external integrator is \<open>Inl IntegratorError\<close>,
  and reading the last element of an empty list is \<open>Inl IndexError\<close>.
\<close>

datatype error = DivisionByZero | IntegratorError | IndexError

subsection \<open>Parameters: \<open>VPSA_Simulator.__init__\<close> and \<open>setup_parameters\<close>\<close>

definition P_scale :: real where "P_scale = 1.0 * 10 ^ 5"

definition L_bed :: real where "L_bed = 1.0"
definition eps :: real where "eps = 0.37"
definition r_p :: real where "r_p = 1.0 / 10 ^ 3"
definition R_gas :: real where "R_gas = 8.314"
definition mu :: real where "mu = 1.72 / 10 ^ 5"

definition q_sb0 :: real where "q_sb0 = 3.09"
definition b0_0 :: real where "b0_0 = 8.65 / 10 ^ 7"
definition dU_b0 :: real where "dU_b0 = - 36641.21"
definition q_sd0 :: real where "q_sd0 = 2.54"
definition d0_0 :: real where "d0_0 = 2.63 / 10 ^ 8"
definition dU_d0 :: real where "dU_d0 = - 35690.66"

definition q_sb1 :: real where "q_sb1 = 5.84"
definition b0_1 :: real where "b0_1 = 2.50 / 10 ^ 6"
definition dU_b1 :: real where "dU_b1 = - 1.58 * 10 ^ 4"

definition K_darcy :: real where
  "K_darcy = (r_p * 2) ^ 2 * eps ^ 3 / (150 * (1 - eps) ^ 2 * mu)"

subsection \<open>The isotherm: \<open>get_isotherm\<close> and \<open>get_isotherm_numeric\<close>\<close>

text \<open>
  \<open>get_isotherm\<close> is the CasADi version, read at a real point \<open>(c_total, y_co2, T)\<close>;
  \<open>get_isotherm_numeric\<close> is the NumPy version, which first turns the pressure into a
  concentration. Both bind the same locals \<open>b0\<close>, \<open>d0\<close>, \<open>b1\<close>, \<open>denom1\<close> and
  \<open>denom2\<close>; their values are named here so that statements can refer to them. The
  three exponents divide by \<open>R_gas * T\<close>, the loadings by \<open>denom1\<close> and \<open>denom2\<close>.
\<close>

definition iso_b0 :: "real \<Rightarrow> real" where
  "iso_b0 T = b0_0 * exp (- dU_b0 / (R_gas * T))"

definition iso_d0 :: "real \<Rightarrow> real" where
  "iso_d0 T = d0_0 * exp (- dU_d0 / (R_gas * T))"

definition iso_b1 :: "real \<Rightarrow> real" where
  "iso_b1 T = b0_1 * exp (- dU_b1 / (R_gas * T))"

definition iso_denom1 :: "real \<Rightarrow> real \<Rightarrow> real \<Rightarrow> real" where
  "iso_denom1 c0 c1 T = 1 + iso_b0 T * c0 + iso_b1 T * c1"

definition iso_denom2 :: "real \<Rightarrow> real \<Rightarrow> real" where
  "iso_denom2 c0 T = 1 + iso_d0 T * c0"

definition get_isotherm :: "real \<Rightarrow> real \<Rightarrow> real \<Rightarrow> error + real \<times> real" where
  "get_isotherm c_total y_co2 T =
     (let c0 = c_total * y_co2;
          c1 = c_total * (1 - y_co2)
      in if R_gas * T = 0 then Inl DivisionByZero
         else
           let b0 = iso_b0 T;
               d0 = iso_d0 T;
               b1 = iso_b1 T;
               denom1 = iso_denom1 c0 c1 T;
               denom2 = iso_denom2 c0 T
           in if denom1 = 0 \<or> denom2 = 0 then Inl DivisionByZero
              else
                let q0 = q_sb0 * b0 * c0 / denom1 + q_sd0 * d0 * c0 / denom2;
                    q1 = q_sb1 * b1 * c1 / denom1
                in Inr (q0, q1))"

definition get_isotherm_numeric :: "real \<Rightarrow> real \<Rightarrow> real \<Rightarrow> error + real \<times> real" where
  "get_isotherm_numeric P y_co2 T =
     (if R_gas * T = 0 then Inl DivisionByZero
      else
        let c_total = P / (R_gas * T);
            c0 = c_total * y_co2;
            c1 = c_total * (1 - y_co2);
            b0 = iso_b0 T;
            d0 = iso_d0 T;
            b1 = iso_b1 T;
            denom1 = iso_denom1 c0 c1 T;
            denom2 = iso_denom2 c0 T
        in if denom1 = 0 \<or> denom2 = 0 then Inl DivisionByZero
           else
             let q0 = q_sb0 * b0 * c0 / denom1 + q_sd0 * d0 * c0 / denom2;
                 q1 = q_sb1 * b1 * c1 / denom1
             in Inr (q0, q1))"

text \<open>
  The isotherm as the specification writes it: an Arrhenius coefficient
  \<open>b(T) = b0 * exp (- \<Delta>U / (R * T))\<close> per site and species, and the two loadings of the
  dual-site Langmuir form, over the component concentrations \<open>c0\<close> and \<open>c1\<close>.
\<close>

definition arrhenius_spec :: "real \<Rightarrow> real \<Rightarrow> real \<Rightarrow> real" where
  "arrhenius_spec k dU T = k * exp (- dU / (8.314 * T))"

definition langmuir_denom1_spec :: "real \<Rightarrow> real \<Rightarrow> real \<Rightarrow> real" where
  "langmuir_denom1_spec c0 c1 T =
     1 + arrhenius_spec (8.65 / 10 ^ 7) (- 36641.21) T * c0
       + arrhenius_spec (2.50 / 10 ^ 6) (- 15800) T * c1"

definition langmuir_denom2_spec :: "real \<Rightarrow> real \<Rightarrow> real" where
  "langmuir_denom2_spec c0 T = 1 + arrhenius_spec (2.63 / 10 ^ 8) (- 35690.66) T * c0"

definition langmuir_q0_spec :: "real \<Rightarrow> real \<Rightarrow> real \<Rightarrow> real" where
  "langmuir_q0_spec c0 c1 T =
     3.09 * arrhenius_spec (8.65 / 10 ^ 7) (- 36641.21) T * c0 / langmuir_denom1_spec c0 c1 T
     + 2.54 * arrhenius_spec (2.63 / 10 ^ 8) (- 35690.66) T * c0 / langmuir_denom2_spec c0 T"

definition langmuir_q1_spec :: "real \<Rightarrow> real \<Rightarrow> real \<Rightarrow> real" where
  "langmuir_q1_spec c0 c1 T =
     5.84 * arrhenius_spec (2.50 / 10 ^ 6) (- 15800) T * c1 / langmuir_denom1_spec c0 c1 T"

subsection \<open>The right-hand side: \<open>VPSA_Robust.build_model\<close>\<close>

text \<open>
  \<open>build_model\<close> builds CasADi expressions over the state \<open>x\<close> (five blocks of \<open>N\<close>
  entries: \<open>y\<close>, \<open>P_bar\<close>, \<open>T\<close>, \<open>q0\<close>, \<open>q1\<close>), the parameter vector
  \<open>u = [type, duration, dummy, P_L, P_H]\<close> and the scaled time \<open>tau\<close>. Each expression is
  embedded as the real function it denotes, up to the face values of mole fraction and
  temperature. \<open>build_model\<close> divides by \<open>N\<close> in \<open>dz\<close> and reads \<open>P[0]\<close> and
  \<open>P[N - 1]\<close>, so it exists for \<open>N \<ge> 1\<close> only, and the integrator takes states of
  length \<open>5 * N\<close>; the theorems below carry these two conditions.

  \<open>ca.if_else (c, a, b)\<close> denotes \<open>a\<close> where the condition \<open>c\<close> holds and \<open>b\<close> where it
  does not.
\<close>

definition if_else :: "bool \<Rightarrow> real \<Rightarrow> real \<Rightarrow> real" where
  "if_else c a b = (if c then a else b)"

definition y_blk :: "nat \<Rightarrow> real list \<Rightarrow> real list" where
  "y_blk N x = take (1 * N - 0 * N) (drop (0 * N) x)"

definition P_bar_blk :: "nat \<Rightarrow> real list \<Rightarrow> real list" where
  "P_bar_blk N x = take (2 * N - 1 * N) (drop (1 * N) x)"

definition T_blk :: "nat \<Rightarrow> real list \<Rightarrow> real list" where
  "T_blk N x = take (3 * N - 2 * N) (drop (2 * N) x)"

definition q0_blk :: "nat \<Rightarrow> real list \<Rightarrow> real list" where
  "q0_blk N x = take (4 * N - 3 * N) (drop (3 * N) x)"

definition q1_blk :: "nat \<Rightarrow> real list \<Rightarrow> real list" where
  "q1_blk N x = take (5 * N - 4 * N) (drop (4 * N) x)"

definition P_blk :: "nat \<Rightarrow> real list \<Rightarrow> real list" where
  "P_blk N x = map (\<lambda>p. p * P_scale) (P_bar_blk N x)"

definition step_type :: "real list \<Rightarrow> real" where "step_type u = u ! 0"
definition duration :: "real list \<Rightarrow> real" where "duration u = u ! 1"
definition P_low :: "real list \<Rightarrow> real" where "P_low u = u ! 3"
definition P_high :: "real list \<Rightarrow> real" where "P_high u = u ! 4"

definition t_phys :: "real list \<Rightarrow> real \<Rightarrow> real" where
  "t_phys u tau = tau * duration u"

definition lam :: "real list \<Rightarrow> real" where
  "lam u = 5.0 / (duration u + 1 / 10 ^ 3)"

definition P_bound_press :: "real list \<Rightarrow> real \<Rightarrow> real" where
  "P_bound_press u tau = P_high u - (P_high u - P_low u) * exp (- lam u * t_phys u tau)"

definition P_bound_blow :: "real list \<Rightarrow> real \<Rightarrow> real" where
  "P_bound_blow u tau = P_low u + (P_high u - P_low u) * exp (- lam u * t_phys u tau)"

definition P_vac :: "real list \<Rightarrow> real" where
  "P_vac u = P_low u * 0.5"

definition P_bound_evac :: "real list \<Rightarrow> real \<Rightarrow> real" where
  "P_bound_evac u tau = P_vac u + (P_low u - P_vac u) * exp (- lam u * t_phys u tau)"

definition P_bound :: "real list \<Rightarrow> real \<Rightarrow> real" where
  "P_bound u tau =
     if_else (step_type u < 0.5) (P_bound_press u tau)
       (if_else (step_type u < 1.5) (P_high u)
          (if_else (step_type u < 2.5) (P_bound_blow u tau) (P_bound_evac u tau)))"

definition dz :: "nat \<Rightarrow> real" where
  "dz N = L_bed / real N"

definition v_max :: real where "v_max = 5.0"

definition v_in_raw :: "nat \<Rightarrow> real list \<Rightarrow> real list \<Rightarrow> real \<Rightarrow> real" where
  "v_in_raw N x u tau = - K_darcy * (P_blk N x ! 0 - P_bound u tau) / (dz N / 2)"

definition v_out_raw :: "nat \<Rightarrow> real list \<Rightarrow> real list \<Rightarrow> real \<Rightarrow> real" where
  "v_out_raw N x u tau = - K_darcy * (P_bound u tau - P_blk N x ! (N - 1)) / (dz N / 2)"

definition v_in :: "nat \<Rightarrow> real list \<Rightarrow> real list \<Rightarrow> real \<Rightarrow> real" where
  "v_in N x u tau = v_max * tanh (v_in_raw N x u tau / v_max)"

definition v_out :: "nat \<Rightarrow> real list \<Rightarrow> real list \<Rightarrow> real \<Rightarrow> real" where
  "v_out N x u tau = v_max * tanh (v_out_raw N x u tau / v_max)"

definition v0 :: "nat \<Rightarrow> real list \<Rightarrow> real list \<Rightarrow> real \<Rightarrow> real" where
  "v0 N x u tau =
     if_else (step_type u < 0.5) (v_in N x u tau)
       (if_else (step_type u < 1.5) 1.0
          (if_else (step_type u < 2.5) 0.0 (v_in N x u tau)))"

definition vN :: "nat \<Rightarrow> real list \<Rightarrow> real list \<Rightarrow> real \<Rightarrow> real" where
  "vN N x u tau =
     if_else (step_type u < 0.5) 0.0
       (if_else (step_type u < 1.5) (v_out N x u tau)
          (if_else (step_type u < 2.5) (v_out N x u tau) 0.0))"

text \<open>
  The face velocities: \<open>N + 1\<close> zeros, the interior faces \<open>1 \<le> i < N\<close> set by the first
  loop, then face \<open>0\<close> and face \<open>N\<close> overwritten by the boundary velocities.
\<close>

definition v_face_interior :: "nat \<Rightarrow> real list \<Rightarrow> nat \<Rightarrow> real" where
  "v_face_interior N x i =
     (let grad_P = (P_blk N x ! i - P_blk N x ! (i - 1)) / dz N
      in v_max * tanh (- K_darcy * grad_P / v_max))"

definition v_face :: "nat \<Rightarrow> real list \<Rightarrow> real list \<Rightarrow> real \<Rightarrow> real list" where
  "v_face N x u tau =
     (let zeros = replicate (N + 1) 0;
          inner = map (\<lambda>i. if 1 \<le> i \<and> i < N then v_face_interior N x i else zeros ! i) [0..<N + 1]
      in (inner[0 := v0 N x u tau])[N := vN N x u tau])"

definition v_smooth :: real where "v_smooth = 0.1"

definition phi_l :: "nat \<Rightarrow> real list \<Rightarrow> real list \<Rightarrow> real \<Rightarrow> nat \<Rightarrow> real" where
  "phi_l N x u tau i = (let vl = v_face N x u tau ! i in 0.5 * (1 + tanh (vl / v_smooth)))"


text \<open>
  The face values of cell \<open>i\<close> in the second loop, first as the source writes them over
  a blend weight and a block (\<open>y\<close> or \<open>T\<close>), then at the weights \<open>phi_l\<close> and \<open>phi_r\<close>
  of the cell.
\<close>

definition left_face :: "real \<Rightarrow> real \<Rightarrow> real list \<Rightarrow> nat \<Rightarrow> real" where
  "left_face feed w blk i =
     (if i = 0 then w * feed + (1 - w) * blk ! i
      else w * blk ! (i - 1) + (1 - w) * blk ! i)"


definition yL :: "nat \<Rightarrow> real list \<Rightarrow> real list \<Rightarrow> real \<Rightarrow> nat \<Rightarrow> real" where
  "yL N x u tau i = left_face 0.15 (phi_l N x u tau i) (y_blk N x) i"

definition TL :: "nat \<Rightarrow> real list \<Rightarrow> real list \<Rightarrow> real \<Rightarrow> nat \<Rightarrow> real" where
  "TL N x u tau i = left_face 298.15 (phi_l N x u tau i) (T_blk N x) i"



subsection \<open>The step integrator: \<open>simulate_step\<close>\<close>

text \<open>
  The CVODES integrator is external. It takes the state \<open>x0\<close> and the parameter vector
  \<open>p\<close> and returns the state at \<open>tau = 1\<close>, or fails; it is a parameter of the model.
  \<open>simulate_step\<close> packs the parameter vector and has no handler of its own.
\<close>

type_synonym integrator = "real list \<Rightarrow> real list \<Rightarrow> error + real list"

definition bind_err :: "error + 'a \<Rightarrow> ('a \<Rightarrow> error + 'b) \<Rightarrow> error + 'b" where
  "bind_err r f = (case r of Inl e \<Rightarrow> Inl e | Inr v \<Rightarrow> f v)"

definition simulate_step ::
  "integrator \<Rightarrow> real list \<Rightarrow> real \<Rightarrow> real \<Rightarrow> real \<Rightarrow> real \<Rightarrow> error + real list" where
  "simulate_step I x0 type_id dur P_L P_H =
     (let p_val = [type_id, dur, 0, P_L, P_H] in I x0 p_val)"

subsection \<open>The cycle driver: \<open>simulate_css\<close>\<close>

text \<open>
  \<open>css_init\<close> is the start of \<open>simulate_css\<close>: a vector of \<open>5 * N\<close> zeros whose five
  blocks are then filled by slice assignment. \<open>slice_fill a b v\<close> is \<open>x[a:b] = v\<close>.
\<close>

definition slice_fill :: "nat \<Rightarrow> nat \<Rightarrow> real \<Rightarrow> real list \<Rightarrow> real list" where
  "slice_fill a b v xs = map (\<lambda>i. if a \<le> i \<and> i < b then v else xs ! i) [0..<length xs]"

definition css_init :: "nat \<Rightarrow> error + real list" where
  "css_init N =
     (let y_init_val = 0.0;
          P_init_val = 10 ^ 4;
          T_init_val = 298.15
      in bind_err (get_isotherm_numeric P_init_val y_init_val T_init_val)
           (\<lambda>(q0_eq, q1_eq).
              let x = replicate (5 * N) 0;
                  x = slice_fill (0 * N) (1 * N) y_init_val x;
                  x = slice_fill (1 * N) (2 * N) (P_init_val / P_scale) x;
                  x = slice_fill (2 * N) (3 * N) T_init_val x;
                  x = slice_fill (3 * N) (4 * N) q0_eq x;
                  x = slice_fill (4 * N) (5 * N) q1_eq x
              in Inr x))"

definition design :: "real list" where
  "design = [20.0, 15.0, 30.0, 40.0]"

text \<open>The four steps of the loop body; an integrator failure leaves the function.\<close>

definition run_cycle :: "integrator \<Rightarrow> real list \<Rightarrow> error + real list" where
  "run_cycle I x =
     bind_err (simulate_step I x 0 (design ! 0) (10 ^ 4) (10 ^ 5)) (\<lambda>x.
     bind_err (simulate_step I x 1 (design ! 1) (10 ^ 4) (10 ^ 5)) (\<lambda>x.
     bind_err (simulate_step I x 2 (design ! 2) (10 ^ 4) (10 ^ 5)) (\<lambda>x.
     simulate_step I x 3 (design ! 3) (10 ^ 4) (10 ^ 5))))"

text \<open>
  \<open>np.linalg.norm\<close> of a vector is its Euclidean norm. The integrator returns a state
  of the length of its input, so the difference \<open>x - x_start\<close> is taken entry by entry.
\<close>

definition linalg_norm :: "real list \<Rightarrow> real" where
  "linalg_norm v = sqrt (sum_list (map (\<lambda>a. a * a) v))"

definition vec_sub :: "real list \<Rightarrow> real list \<Rightarrow> real list" where
  "vec_sub a b = map2 (-) a b"

definition cycle_err :: "real list \<Rightarrow> real list \<Rightarrow> real" where
  "cycle_err x x_start = linalg_norm (vec_sub x x_start) / (linalg_norm x_start + 1 / 10 ^ 8)"

text \<open>
  The loop \<open>for i in range(cycles)\<close>, on the cycles still to run, the state and the
  errors recorded so far; \<open>break\<close> leaves it with what has been recorded.
\<close>

fun css_loop ::
  "integrator \<Rightarrow> nat \<Rightarrow> real list \<Rightarrow> real list \<Rightarrow> error + real list \<times> real list" where
  "css_loop I 0 x errors = Inr (errors, x)"
| "css_loop I (Suc k) x errors =
     (let x_start = x
      in bind_err (run_cycle I x) (\<lambda>x.
           let err = cycle_err x x_start;
               errors = errors @ [err]
           in if err < 1 / 10 ^ 3 then Inr (errors, x)
              else css_loop I k x errors))"

definition simulate_css :: "integrator \<Rightarrow> nat \<Rightarrow> nat \<Rightarrow> error + real list \<times> real list" where
  "simulate_css I N cycles = bind_err (css_init N) (\<lambda>x. css_loop I cycles x [])"

subsection \<open>The sweep driver: the main program\<close>

text \<open>
  The main loop builds a simulator per mesh size, runs it for at most 1000 cycles and
  records a row (the elapsed time is not modelled). There is no \<open>try\<close> in the program:
  an exception ends the loop. The model returns the rows recorded so far and the
  exception that ended the loop, if any. The argument \<open>mk\<close> gives the integrator that
  \<open>VPSA_Robust (N = n_val)\<close> builds.
\<close>

record result_row =
  cycles :: nat
  final_error :: real
  x_final :: "real list"

definition N_values :: "nat list" where
  "N_values = [15, 20, 25, 30, 35, 40]"

fun sweep_loop ::
  "(nat \<Rightarrow> integrator) \<Rightarrow> nat list \<Rightarrow> (nat \<times> result_row) list
     \<Rightarrow> (nat \<times> result_row) list \<times> error option" where
  "sweep_loop mk [] results = (results, None)"
| "sweep_loop mk (n_val # rest) results =
     (case simulate_css (mk n_val) n_val 1000 of
        Inl e \<Rightarrow> (results, Some e)
      | Inr (errs, final_x) \<Rightarrow>
          if errs = [] then (results, Some IndexError)
          else sweep_loop mk rest
                 (results @ [(n_val, \<lparr>cycles = length errs, final_error = last errs,
                                       x_final = final_x\<rparr>)]))"

definition main_sweep :: "(nat \<Rightarrow> integrator) \<Rightarrow> (nat \<times> result_row) list \<times> error option" where
  "main_sweep mk = sweep_loop mk N_values []"


definition fails_at_20 :: "nat \<Rightarrow> integrator" where
  "fails_at_20 n x p = (if n = 20 then Inl IntegratorError else Inr x)"

section \<open>Properties of the isotherm\<close>

lemma iso_coefficients_pos: "0 < iso_b0 T" "0 < iso_d0 T" "0 < iso_b1 T"
  by (simp_all add: iso_b0_def iso_d0_def iso_b1_def b0_0_def d0_0_def b0_1_def)

lemma iso_denom1_ge1:
  assumes "0 \<le> c0" and "0 \<le> c1"
  shows "1 \<le> iso_denom1 c0 c1 T"
proof -
  have "0 \<le> iso_b0 T * c0"
    using assms(1) iso_coefficients_pos(1) [of T] by (simp add: less_imp_le)
  moreover have "0 \<le> iso_b1 T * c1"
    using assms(2) iso_coefficients_pos(3) [of T] by (simp add: less_imp_le)
  ultimately show ?thesis
    unfolding iso_denom1_def by linarith
qed

lemma iso_denom2_ge1:
  assumes "0 \<le> c0"
  shows "1 \<le> iso_denom2 c0 T"
proof -
  have "0 \<le> iso_d0 T * c0"
    using assms iso_coefficients_pos(2) [of T] by (simp add: less_imp_le)
  then show ?thesis
    unfolding iso_denom2_def by linarith
qed

lemma iso_coefficients_spec:
  "iso_b0 T = arrhenius_spec (8.65 / 10 ^ 7) (- 36641.21) T"
  "iso_d0 T = arrhenius_spec (2.63 / 10 ^ 8) (- 35690.66) T"
  "iso_b1 T = arrhenius_spec (2.50 / 10 ^ 6) (- 15800) T"
  by (simp_all add: iso_b0_def iso_d0_def iso_b1_def arrhenius_spec_def R_gas_def
      b0_0_def dU_b0_def d0_0_def dU_d0_def b0_1_def dU_b1_def)

lemma iso_denoms_spec:
  "iso_denom1 c0 c1 T = langmuir_denom1_spec c0 c1 T"
  "iso_denom2 c0 T = langmuir_denom2_spec c0 T"
  by (simp_all add: iso_denom1_def iso_denom2_def langmuir_denom1_spec_def
      langmuir_denom2_spec_def iso_coefficients_spec)

lemma get_isotherm_value:
  assumes "0 \<le> c_total * y" and "0 \<le> c_total * (1 - y)" and "0 < T"
  shows "get_isotherm c_total y T =
           Inr (q_sb0 * iso_b0 T * (c_total * y) / iso_denom1 (c_total * y) (c_total * (1 - y)) T
                  + q_sd0 * iso_d0 T * (c_total * y) / iso_denom2 (c_total * y) T,
                q_sb1 * iso_b1 T * (c_total * (1 - y)) / iso_denom1 (c_total * y) (c_total * (1 - y)) T)"
proof -
  have d1: "iso_denom1 (c_total * y) (c_total * (1 - y)) T \<noteq> 0"
    using iso_denom1_ge1 [OF assms(1) assms(2), of T] by linarith
  have d2: "iso_denom2 (c_total * y) T \<noteq> 0"
    using iso_denom2_ge1 [OF assms(1), of T] by linarith
  have T0: "R_gas * T \<noteq> 0"
    using assms(3) by (simp add: R_gas_def)
  show ?thesis
    using d1 d2 T0 unfolding get_isotherm_def Let_def by simp
qed

lemma get_isotherm_numeric_value:
  assumes "0 \<le> P / (R_gas * T) * y" and "0 \<le> P / (R_gas * T) * (1 - y)" and "0 < T"
  shows "get_isotherm_numeric P y T =
           Inr (q_sb0 * iso_b0 T * (P / (R_gas * T) * y)
                    / iso_denom1 (P / (R_gas * T) * y) (P / (R_gas * T) * (1 - y)) T
                  + q_sd0 * iso_d0 T * (P / (R_gas * T) * y) / iso_denom2 (P / (R_gas * T) * y) T,
                q_sb1 * iso_b1 T * (P / (R_gas * T) * (1 - y))
                    / iso_denom1 (P / (R_gas * T) * y) (P / (R_gas * T) * (1 - y)) T)"
proof -
  have d1: "iso_denom1 (P / (R_gas * T) * y) (P / (R_gas * T) * (1 - y)) T \<noteq> 0"
    using iso_denom1_ge1 [OF assms(1) assms(2), of T] by linarith
  have d2: "iso_denom2 (P / (R_gas * T) * y) T \<noteq> 0"
    using iso_denom2_ge1 [OF assms(1), of T] by linarith
  have T0: "R_gas * T \<noteq> 0"
    using assms(3) by (simp add: R_gas_def)
  show ?thesis
    using d1 d2 T0 unfolding get_isotherm_numeric_def Let_def by simp
qed


text \<open>
  Claim C3. For a total concentration \<open>c_total \<ge> 0\<close>, a mole fraction \<open>y\<close> in \<open>[0, 1]\<close>
  and a temperature \<open>T > 0\<close>, the isotherm returns exactly the dual-site Langmuir
  loadings of the specification, over \<open>c0 = c_total * y\<close> and \<open>c1 = c_total * (1 - y)\<close>,
  with Arrhenius coefficients and the parameter values of \<open>setup_parameters\<close>. The
  numeric version does so at the concentration \<open>P / (R_gas * T)\<close> of its pressure.
\<close>

theorem isotherm_dual_site_langmuir:
  assumes "0 \<le> c_total" and "0 \<le> y" and "y \<le> 1" and "0 < T"
  shows "get_isotherm c_total y T =
           Inr (langmuir_q0_spec (c_total * y) (c_total * (1 - y)) T,
                langmuir_q1_spec (c_total * y) (c_total * (1 - y)) T)
         \<and> get_isotherm_numeric (c_total * (R_gas * T)) y T =
           Inr (langmuir_q0_spec (c_total * y) (c_total * (1 - y)) T,
                langmuir_q1_spec (c_total * y) (c_total * (1 - y)) T)"
proof -
  have c0: "0 \<le> c_total * y" and c1: "0 \<le> c_total * (1 - y)"
    using assms by simp_all
  have RT: "R_gas * T \<noteq> 0"
    using assms(4) by (simp add: R_gas_def)
  then have P: "c_total * (R_gas * T) / (R_gas * T) = c_total"
    by simp
  have sym: "get_isotherm c_total y T =
           Inr (langmuir_q0_spec (c_total * y) (c_total * (1 - y)) T,
                langmuir_q1_spec (c_total * y) (c_total * (1 - y)) T)"
    unfolding get_isotherm_value [OF c0 c1 assms(4)] langmuir_q0_spec_def langmuir_q1_spec_def
    by (simp add: iso_coefficients_spec iso_denoms_spec q_sb0_def q_sd0_def q_sb1_def)
  have c0': "0 \<le> c_total * (R_gas * T) / (R_gas * T) * y"
    and c1': "0 \<le> c_total * (R_gas * T) / (R_gas * T) * (1 - y)"
    using c0 c1 unfolding P by simp_all
  have num: "get_isotherm_numeric (c_total * (R_gas * T)) y T =
           Inr (langmuir_q0_spec (c_total * y) (c_total * (1 - y)) T,
                langmuir_q1_spec (c_total * y) (c_total * (1 - y)) T)"
    unfolding get_isotherm_numeric_value [OF c0' c1' assms(4)] P
      langmuir_q0_spec_def langmuir_q1_spec_def
    by (simp add: iso_coefficients_spec iso_denoms_spec q_sb0_def q_sd0_def q_sb1_def)
  show ?thesis
    using sym num by simp
qed

theorem isotherm_dual_site_langmuir_witness:
  "get_isotherm 40 (1 / 4) 300 = Inr (langmuir_q0_spec 10 30 300, langmuir_q1_spec 10 30 300)
   \<and> get_isotherm_numeric (40 * (R_gas * 300)) (1 / 4) 300 =
       Inr (langmuir_q0_spec 10 30 300, langmuir_q1_spec 10 30 300)"
  using isotherm_dual_site_langmuir [of 40 "1 / 4" 300] by simp

text \<open>
  Claim C4. The two isotherm evaluations are the same function: the numeric one at
  pressure \<open>P\<close> returns what the symbolic one returns at the concentration
  \<open>c_total = P / (R_gas * T)\<close>, for the same \<open>y\<close> and \<open>T\<close>. This holds at every real
  input, in particular for \<open>P > 0\<close>, \<open>y\<close> in \<open>[0, 1]\<close> and \<open>T > 0\<close>.
\<close>

theorem isotherm_numeric_agrees_with_symbolic:
  "get_isotherm_numeric P y T = get_isotherm (P / (R_gas * T)) y T"
  unfolding get_isotherm_numeric_def get_isotherm_def Let_def by simp



section \<open>Properties of the right-hand side\<close>






text \<open>
  Claim C7. At step type 0 with \<open>P_low = 1e4\<close>, \<open>P_high = 1e5\<close> and duration 20, the
  boundary pressure at \<open>tau = 1\<close> is \<open>P_bound_press\<close> at the physical time
  \<open>t = tau * duration\<close> with \<open>\<lambda> = 5 / (duration + 1e-3)\<close>, and its relative distance
  from \<open>P_high\<close> is at most \<open>exp (- 5 / (20 + 1e-3) * 1)\<close>.
\<close>

theorem pressurization_boundary_pressure_at_end:
  "P_bound [0, 20, dm, 10 ^ 4, 10 ^ 5] 1 = P_bound_press [0, 20, dm, 10 ^ 4, 10 ^ 5] 1
   \<and> P_bound_press [0, 20, dm, 10 ^ 4, 10 ^ 5] 1
       = 10 ^ 5 - (10 ^ 5 - 10 ^ 4) * exp (- (5 / (20 + 1 / 10 ^ 3)) * (1 * 20))
   \<and> \<bar>P_bound [0, 20, dm, 10 ^ 4, 10 ^ 5] 1 - 10 ^ 5\<bar> / 10 ^ 5
       \<le> exp (- 5 / (20 + 1 / 10 ^ 3) * 1)"
proof -
  let ?u = "[0, 20, dm, 10 ^ 4, 10 ^ 5] :: real list"
  have sel: "P_bound ?u 1 = P_bound_press ?u 1"
    by (simp add: P_bound_def if_else_def step_type_def)
  have val: "P_bound_press ?u 1 = 10 ^ 5 - (10 ^ 5 - 10 ^ 4) * exp (- (5 / (20 + 1 / 10 ^ 3)) * (1 * 20))"
    by (simp add: P_bound_press_def P_high_def P_low_def lam_def t_phys_def duration_def)
  have mono: "exp (- (5 / (20 + 1 / 10 ^ 3)) * (1 * 20)) \<le> exp (- 5 / (20 + 1 / 10 ^ 3) * 1 :: real)"
    by (subst exp_le_cancel_iff) simp
  have pos: "0 < exp (- (5 / (20 + 1 / 10 ^ 3)) * (1 * 20) :: real)"
    by (rule exp_gt_zero)
  have "\<bar>P_bound ?u 1 - 10 ^ 5\<bar> / 10 ^ 5
        = (9 / 10) * exp (- (5 / (20 + 1 / 10 ^ 3)) * (1 * 20))"
    unfolding sel val using pos by (simp add: abs_mult)
  also have "\<dots> \<le> exp (- (5 / (20 + 1 / 10 ^ 3)) * (1 * 20))"
    using pos by simp
  also have "\<dots> \<le> exp (- 5 / (20 + 1 / 10 ^ 3) * 1)"
    by (rule mono)
  finally show ?thesis
    using sel val by simp
qed





section \<open>Properties of the cycle driver\<close>

text \<open>
  Claim C1. One cycle is exactly four steps in this order: type 0 for 20, type 1 for
  15, type 2 for 30, type 3 for 40, each with the pressure bounds \<open>1e4\<close> and \<open>1e5\<close>, each
  through \<open>simulate_step\<close> (which hands the state and the vector
  \<open>[type, duration, 0, P_L, P_H]\<close> to the integrator), the state returned by one step
  being the input of the next.
\<close>

theorem run_cycle_four_steps:
  "run_cycle I x =
     foldl (\<lambda>r (ty, d). bind_err r (\<lambda>s. simulate_step I s ty d (10 ^ 4) (10 ^ 5))) (Inr x)
       [(0, 20), (1, 15), (2, 30), (3, 40)]
   \<and> simulate_step I s ty d pl ph = I s [ty, d, 0, pl, ph]"
  by (simp add: run_cycle_def design_def bind_err_def simulate_step_def split: sum.splits)

lemma slice_fill_length: "length (slice_fill a b v xs) = length xs"
  by (simp add: slice_fill_def)

lemma slice_fill_nth:
  "i < length xs \<Longrightarrow> slice_fill a b v xs ! i = (if a \<le> i \<and> i < b then v else xs ! i)"
  by (simp add: slice_fill_def)

lemma feed_isotherm:
  "get_isotherm_numeric (10 ^ 4) 0 298.15 =
     Inr (0, q_sb1 * iso_b1 298.15 * (10 ^ 4 / (R_gas * 298.15))
               / iso_denom1 0 (10 ^ 4 / (R_gas * 298.15)) 298.15)"
proof -
  have a: "0 \<le> 10 ^ 4 / (R_gas * 298.15) * (0::real)"
    by simp
  have b: "0 \<le> 10 ^ 4 / (R_gas * 298.15) * (1 - (0::real))"
    by (simp add: R_gas_def)
  have c: "(0::real) < 298.15"
    by simp
  show ?thesis
    unfolding get_isotherm_numeric_value [OF a b c] by simp
qed

lemma feed_loading_pos:
  "0 < q_sb1 * iso_b1 298.15 * (10 ^ 4 / (R_gas * 298.15))
         / iso_denom1 0 (10 ^ 4 / (R_gas * 298.15)) 298.15"
proof -
  have c: "(0::real) < 10 ^ 4 / (R_gas * 298.15)"
    by (simp add: R_gas_def)
  have d: "0 < iso_denom1 0 (10 ^ 4 / (R_gas * 298.15)) 298.15"
    using iso_denom1_ge1 [of 0 "10 ^ 4 / (R_gas * 298.15)" "298.15"] c by simp
  have n: "0 < q_sb1 * iso_b1 298.15 * (10 ^ 4 / (R_gas * 298.15))"
    using c iso_coefficients_pos(3) [of "298.15"] by (simp add: q_sb1_def)
  show ?thesis
    using n d by (rule divide_pos_pos)
qed

lemma css_init_value:
  "css_init N =
     Inr (slice_fill (4 * N) (5 * N)
            (q_sb1 * iso_b1 298.15 * (10 ^ 4 / (R_gas * 298.15))
               / iso_denom1 0 (10 ^ 4 / (R_gas * 298.15)) 298.15)
         (slice_fill (3 * N) (4 * N) 0
         (slice_fill (2 * N) (3 * N) 298.15
         (slice_fill (1 * N) (2 * N) (10 ^ 4 / P_scale)
         (slice_fill (0 * N) (1 * N) 0 (replicate (5 * N) 0))))))"
  using feed_isotherm by (simp add: css_init_def Let_def bind_err_def)

text \<open>
  Claim C5. The initial state of the cycle driver has length \<open>5 * N\<close> and, in every
  control volume, mole fraction 0, scaled pressure \<open>1e4 / 1e5 = 0.1\<close>, temperature
  298.15 and the two loadings that the numeric isotherm returns at \<open>P = 1e4\<close>,
  \<open>y = 0\<close>, \<open>T = 298.15\<close>. At \<open>y = 0\<close> the isotherm's first loading is 0 and its
  second is positive.
\<close>

theorem css_init_state:
  "\<exists>q0_eq q1_eq x.
      get_isotherm_numeric (10 ^ 4) 0 298.15 = Inr (q0_eq, q1_eq)
    \<and> css_init N = Inr x
    \<and> length x = 5 * N
    \<and> (\<forall>i<N. x ! i = 0
            \<and> x ! (N + i) = 10 ^ 4 / 10 ^ 5 \<and> x ! (N + i) = 0.1
            \<and> x ! (2 * N + i) = 298.15
            \<and> x ! (3 * N + i) = q0_eq
            \<and> x ! (4 * N + i) = q1_eq)
    \<and> q0_eq = 0 \<and> 0 < q1_eq"
proof -
  let ?q1 = "q_sb1 * iso_b1 298.15 * (10 ^ 4 / (R_gas * 298.15))
               / iso_denom1 0 (10 ^ 4 / (R_gas * 298.15)) 298.15"
  let ?x = "slice_fill (4 * N) (5 * N) ?q1
         (slice_fill (3 * N) (4 * N) 0
         (slice_fill (2 * N) (3 * N) 298.15
         (slice_fill (1 * N) (2 * N) (10 ^ 4 / P_scale)
         (slice_fill (0 * N) (1 * N) 0 (replicate (5 * N) 0)))))"
  have len: "length ?x = 5 * N"
    by (simp add: slice_fill_length)
  have cells: "?x ! i = 0 \<and> ?x ! (N + i) = 10 ^ 4 / 10 ^ 5 \<and> ?x ! (N + i) = 0.1
      \<and> ?x ! (2 * N + i) = 298.15 \<and> ?x ! (3 * N + i) = 0 \<and> ?x ! (4 * N + i) = ?q1"
    if "i < N" for i
    using that by (simp add: slice_fill_nth slice_fill_length P_scale_def)
  show ?thesis
    using feed_isotherm css_init_value [of N] len cells feed_loading_pos by blast
qed

theorem css_init_state_witness:
  "\<exists>q0_eq q1_eq x.
      get_isotherm_numeric (10 ^ 4) 0 298.15 = Inr (q0_eq, q1_eq)
    \<and> css_init 2 = Inr x
    \<and> length x = 10
    \<and> x ! 0 = 0 \<and> x ! 1 = 0
    \<and> x ! 2 = 0.1 \<and> x ! 3 = 0.1
    \<and> x ! 4 = 298.15 \<and> x ! 5 = 298.15
    \<and> x ! 6 = q0_eq \<and> x ! 7 = q0_eq
    \<and> x ! 8 = q1_eq \<and> x ! 9 = q1_eq"
proof -
  obtain q0_eq q1_eq x where
    iso: "get_isotherm_numeric (10 ^ 4) 0 298.15 = Inr (q0_eq, q1_eq)"
    and init: "css_init 2 = Inr x"
    and len: "length x = 5 * 2"
    and cells: "\<forall>i<2. x ! i = 0
            \<and> x ! (2 + i) = 10 ^ 4 / 10 ^ 5 \<and> x ! (2 + i) = 0.1
            \<and> x ! (2 * 2 + i) = 298.15
            \<and> x ! (3 * 2 + i) = q0_eq
            \<and> x ! (4 * 2 + i) = q1_eq"
    using css_init_state [of 2] by blast
  have c0: "x ! 0 = 0 \<and> x ! 2 = 0.1 \<and> x ! 4 = 298.15 \<and> x ! 6 = q0_eq \<and> x ! 8 = q1_eq"
    using cells [rule_format, of 0] by simp
  have c1: "x ! 1 = 0 \<and> x ! 3 = 0.1 \<and> x ! 5 = 298.15 \<and> x ! 7 = q0_eq \<and> x ! 9 = q1_eq"
    using cells [rule_format, of 1] by simp
  show ?thesis
    using iso init len c0 c1 by auto
qed


lemma cycle_err_same: "cycle_err x x = 0"
proof -
  have "vec_sub x x = map (\<lambda>a. 0) x"
    unfolding vec_sub_def by (induction x) simp_all
  then have "sum_list (map (\<lambda>a. a * a) (vec_sub x x)) = 0"
    by (simp add: comp_def)
  then show ?thesis
    by (simp add: cycle_err_def linalg_norm_def)
qed

lemma css_loop_Suc_fail:
  "run_cycle I x = Inl e \<Longrightarrow> css_loop I (Suc k) x errs = Inl e"
  by (simp add: bind_err_def)

lemma css_loop_Suc_stop:
  "run_cycle I x = Inr x' \<Longrightarrow> cycle_err x' x < 1 / 10 ^ 3
     \<Longrightarrow> css_loop I (Suc k) x errs = Inr (errs @ [cycle_err x' x], x')"
  by (simp add: bind_err_def Let_def)

lemma css_loop_Suc_continue:
  "run_cycle I x = Inr x' \<Longrightarrow> \<not> cycle_err x' x < 1 / 10 ^ 3
     \<Longrightarrow> css_loop I (Suc k) x errs = css_loop I k x' (errs @ [cycle_err x' x])"
  by (simp add: bind_err_def Let_def)






lemma css_init_ok: "\<exists>x. css_init N = Inr x"
  using css_init_value [of N] by blast

lemma simulate_css_init:
  "css_init N = Inr x0 \<Longrightarrow> simulate_css I N c = css_loop I c x0 []"
  by (simp add: simulate_css_def bind_err_def)

lemma run_cycle_failure_iff:
  "run_cycle I x = Inl e \<longleftrightarrow>
     simulate_step I x 0 20 (10 ^ 4) (10 ^ 5) = Inl e
     \<or> (\<exists>x1. simulate_step I x 0 20 (10 ^ 4) (10 ^ 5) = Inr x1
          \<and> (simulate_step I x1 1 15 (10 ^ 4) (10 ^ 5) = Inl e
             \<or> (\<exists>x2. simulate_step I x1 1 15 (10 ^ 4) (10 ^ 5) = Inr x2
                  \<and> (simulate_step I x2 2 30 (10 ^ 4) (10 ^ 5) = Inl e
                     \<or> (\<exists>x3. simulate_step I x2 2 30 (10 ^ 4) (10 ^ 5) = Inr x3
                          \<and> simulate_step I x3 3 40 (10 ^ 4) (10 ^ 5) = Inl e)))))"
  by (auto simp add: run_cycle_def design_def bind_err_def split: sum.splits)

lemma sweep_loop_stops:
  assumes "\<forall>m\<in>set ns1. \<exists>errs xf. simulate_css (mk m) m 1000 = Inr (errs, xf) \<and> errs \<noteq> []"
    and "simulate_css (mk n) n 1000 = Inl e"
  shows "\<exists>rows'. sweep_loop mk (ns1 @ n # rest) rows = (rows @ rows', Some e)
           \<and> map fst rows' = ns1"
  using assms(1)
proof (induction ns1 arbitrary: rows)
  case Nil
  show ?case
    using assms(2) by simp
next
  case (Cons a ns1)
  obtain errs xf where run: "simulate_css (mk a) a 1000 = Inr (errs, xf)" and ne: "errs \<noteq> []"
    using Cons.prems by auto
  let ?row = "(a, \<lparr>cycles = length errs, final_error = last errs, x_final = xf\<rparr>)"
  have rest_ok: "\<forall>m\<in>set ns1. \<exists>errs xf. simulate_css (mk m) m 1000 = Inr (errs, xf) \<and> errs \<noteq> []"
    using Cons.prems by simp
  obtain rows' where r: "sweep_loop mk (ns1 @ n # rest) (rows @ [?row]) = ((rows @ [?row]) @ rows', Some e)"
    and f: "map fst rows' = ns1"
    using Cons.IH [OF rest_ok, of "rows @ [?row]"] by blast
  have "sweep_loop mk ((a # ns1) @ n # rest) rows = (rows @ (?row # rows'), Some e)"
    using run ne r by simp
  moreover have "map fst (?row # rows') = a # ns1"
    using f by simp
  ultimately show ?case
    by (intro exI [of _ "?row # rows'"] conjI)
qed

lemma run_cycle_fails_at_20:
  "run_cycle (fails_at_20 20) x = Inl IntegratorError"
  "n \<noteq> 20 \<Longrightarrow> run_cycle (fails_at_20 n) x = Inr x"
  by (simp_all add: run_cycle_def simulate_step_def fails_at_20_def bind_err_def)

lemma thousand: "(1000::nat) = Suc 999"
  by simp

lemma simulate_css_fails_at_20:
  "simulate_css (fails_at_20 20) 20 1000 = Inl IntegratorError"
proof -
  obtain x where x: "css_init 20 = Inr x"
    using css_init_ok by blast
  show ?thesis
    unfolding simulate_css_init [OF x] thousand
    by (rule css_loop_Suc_fail) (rule run_cycle_fails_at_20(1))
qed

lemma simulate_css_succeeds_elsewhere:
  assumes "n \<noteq> 20"
  shows "\<exists>x. simulate_css (fails_at_20 n) n 1000 = Inr ([0], x)"
proof -
  obtain x where x: "css_init n = Inr x"
    using css_init_ok by blast
  have rc: "run_cycle (fails_at_20 n) x = Inr x"
    using assms by (rule run_cycle_fails_at_20(2))
  have "cycle_err x x < 1 / 10 ^ 3"
    by (simp add: cycle_err_same)
  then have "css_loop (fails_at_20 n) (Suc 999) x [] = Inr ([] @ [cycle_err x x], x)"
    by (rule css_loop_Suc_stop [OF rc])
  then show ?thesis
    unfolding simulate_css_init [OF x] thousand by (simp add: cycle_err_same)
qed

section \<open>Properties of the sweep driver\<close>

text \<open>
  Claim C9, as the program has it. A failed integration step fails its cycle, a failed
  cycle fails the loop in whichever cycle it occurs, and the failure of the loop is the
  failure of \<open>simulate_css\<close>. The sweep driver has no handler: where the runs of the
  mesh sizes \<open>ns1\<close> succeed and the run of the next mesh size \<open>n\<close> fails, the sweep ends
  with that failure, having recorded the rows of \<open>ns1\<close> only, whatever the remaining
  mesh sizes are.
\<close>

theorem failure_aborts_sweep:
  "(run_cycle I x = Inl e \<longleftrightarrow>
     simulate_step I x 0 20 (10 ^ 4) (10 ^ 5) = Inl e
     \<or> (\<exists>x1. simulate_step I x 0 20 (10 ^ 4) (10 ^ 5) = Inr x1
          \<and> (simulate_step I x1 1 15 (10 ^ 4) (10 ^ 5) = Inl e
             \<or> (\<exists>x2. simulate_step I x1 1 15 (10 ^ 4) (10 ^ 5) = Inr x2
                  \<and> (simulate_step I x2 2 30 (10 ^ 4) (10 ^ 5) = Inl e
                     \<or> (\<exists>x3. simulate_step I x2 2 30 (10 ^ 4) (10 ^ 5) = Inr x3
                          \<and> simulate_step I x3 3 40 (10 ^ 4) (10 ^ 5) = Inl e))))))
   \<and> (run_cycle I x = Inl e \<longrightarrow> css_loop I (Suc k) x errs = Inl e)
   \<and> (run_cycle I x = Inr x' \<and> \<not> cycle_err x' x < 1 / 10 ^ 3 \<longrightarrow>
        css_loop I (Suc k) x errs = css_loop I k x' (errs @ [cycle_err x' x]))
   \<and> (css_init N = Inr x0 \<longrightarrow> simulate_css I N c = css_loop I c x0 [])
   \<and> ((\<forall>m\<in>set ns1. \<exists>errs xf. simulate_css (mk m) m 1000 = Inr (errs, xf) \<and> errs \<noteq> [])
        \<and> simulate_css (mk n) n 1000 = Inl e \<longrightarrow>
        (\<exists>rows'. sweep_loop mk (ns1 @ n # rest) rows = (rows @ rows', Some e)
            \<and> map fst rows' = ns1))"
  apply (intro conjI impI)
      apply (rule run_cycle_failure_iff)
     apply (erule css_loop_Suc_fail)
    apply (erule conjE, erule (1) css_loop_Suc_continue)
   apply (erule simulate_css_init)
  apply (erule conjE, erule (1) sweep_loop_stops)
  done

theorem failure_aborts_sweep_witness:
  "run_cycle (fails_at_20 20) [0, 1 / 10, 298.15, 0, 0] = Inl IntegratorError
   \<and> css_loop (fails_at_20 20) (Suc 999) [0, 1 / 10, 298.15, 0, 0] [] = Inl IntegratorError
   \<and> (\<exists>rows'. sweep_loop fails_at_20 ([15] @ 20 # [25, 30, 35, 40]) []
                  = ([] @ rows', Some IntegratorError)
        \<and> map fst rows' = [15])"
proof -
  let ?x = "[0, 1 / 10, 298.15, 0, 0] :: real list"
  note inst = failure_aborts_sweep [of "fails_at_20 20" ?x IntegratorError 999 "[]" _ _ _ _
      "[15]" fails_at_20 20 "[25, 30, 35, 40]" "[]"]
  note steps = inst [THEN conjunct1]
  note cycle = inst [THEN conjunct2, THEN conjunct1]
  note sweep = inst [THEN conjunct2, THEN conjunct2, THEN conjunct2, THEN conjunct2]
  have step: "simulate_step (fails_at_20 20) ?x 0 20 (10 ^ 4) (10 ^ 5) = Inl IntegratorError"
    by (simp add: simulate_step_def fails_at_20_def)
  have a: "run_cycle (fails_at_20 20) ?x = Inl IntegratorError"
    unfolding steps using step by (rule disjI1)
  have b: "css_loop (fails_at_20 20) (Suc 999) ?x [] = Inl IntegratorError"
    using cycle a by (rule mp)
  obtain x15 where r15: "simulate_css (fails_at_20 15) 15 1000 = Inr ([0], x15)"
    using simulate_css_succeeds_elsewhere [of 15] by auto
  have earlier: "\<forall>m\<in>set [15]. \<exists>errs xf.
      simulate_css (fails_at_20 m) m 1000 = Inr (errs, xf) \<and> errs \<noteq> []"
    using r15 by simp
  have c: "\<exists>rows'. sweep_loop fails_at_20 ([15] @ 20 # [25, 30, 35, 40]) []
                  = ([] @ rows', Some IntegratorError) \<and> map fst rows' = [15]"
    by (rule sweep [THEN mp]) (intro conjI earlier simulate_css_fails_at_20)
  show ?thesis
    by (intro conjI a b c)
qed

text \<open>
  With an integrator that fails at mesh size 20 only, the sweep over
  \<open>[15, 20, 25, 30, 35, 40]\<close> ends with the failure and has the row of mesh size 15
  only, although the runs at 25, 30, 35 and 40 would succeed.
\<close>

theorem sweep_continues_counterexample:
  "snd (main_sweep fails_at_20) = Some IntegratorError
   \<and> map fst (fst (main_sweep fails_at_20)) = [15]
   \<and> \<not> isl (simulate_css (fails_at_20 25) 25 1000)
   \<and> \<not> isl (simulate_css (fails_at_20 30) 30 1000)
   \<and> \<not> isl (simulate_css (fails_at_20 35) 35 1000)
   \<and> \<not> isl (simulate_css (fails_at_20 40) 40 1000)"
proof -
  obtain x15 where r15: "simulate_css (fails_at_20 15) 15 1000 = Inr ([0], x15)"
    using simulate_css_succeeds_elsewhere [of 15] by auto
  have "sweep_loop fails_at_20 (20 # [25, 30, 35, 40])
          ([] @ [(15, \<lparr>cycles = length [0::real], final_error = last [0], x_final = x15\<rparr>)])
        = ([] @ [(15, \<lparr>cycles = length [0::real], final_error = last [0], x_final = x15\<rparr>)],
           Some IntegratorError)"
    by (simp only: sweep_loop.simps simulate_css_fails_at_20 sum.case)
  then have "sweep_loop fails_at_20 (15 # 20 # [25, 30, 35, 40]) [] =
      ([] @ [(15, \<lparr>cycles = length [0::real], final_error = last [0], x_final = x15\<rparr>)],
       Some IntegratorError)"
    by (simp only: sweep_loop.simps r15 sum.case prod.case list.distinct if_False)
  then have sweep: "main_sweep fails_at_20 =
      ([(15, \<lparr>cycles = 1, final_error = 0, x_final = x15\<rparr>)], Some IntegratorError)"
    by (simp add: main_sweep_def N_values_def)
  have ok: "\<not> isl (simulate_css (fails_at_20 n) n 1000)" if "n \<noteq> 20" for n
    using simulate_css_succeeds_elsewhere [OF that] by auto
  show ?thesis
    using sweep ok [of 25] ok [of 30] ok [of 35] ok [of 40] by simp
qed

end
